theory Spec2Isabelle
  imports Main "HOL-Library.Word"
begin

section \<open>gcs-unzip: the bounded staging-and-upload pipeline\<close>

text \<open>
  A shallow embedding of \<^verbatim>\<open>main.go\<close> and \<^verbatim>\<open>extractor.go\<close>. Go strings are byte
  strings and are modelled as \<^typ>\<open>string\<close>; \<^verbatim>\<open>uint64\<close> is \<^typ>\<open>64 word\<close>. Every
  error return and every \<^verbatim>\<open>panic\<close> of the source is a value of the type \<open>error\<close>.
\<close>

type_synonym uint64 = "64 word"

datatype error =
    Panic string
  | ErrParse string
  | ErrUnsupportedFormat string

subsection \<open>Helpers of the Go standard library\<close>

text \<open>\<^verbatim>\<open>strings.HasSuffix(s, suffix)\<close>:
  \<^verbatim>\<open>len(s) >= len(suffix) && s[len(s)-len(suffix):] == suffix\<close>.\<close>

definition HasSuffix :: "string \<Rightarrow> string \<Rightarrow> bool" where
  "HasSuffix s suf = (length suf \<le> length s \<and> drop (length s - length suf) s = suf)"

text \<open>\<^verbatim>\<open>strings.TrimSuffix(s, suffix)\<close>.\<close>

definition TrimSuffix :: "string \<Rightarrow> string \<Rightarrow> string" where
  "TrimSuffix s suf = (if HasSuffix s suf then take (length s - length suf) s else s)"

text \<open>\<^verbatim>\<open>strings.ToLower\<close> on ASCII: the letters A to Z are mapped to a to z and every
  other byte is kept.\<close>

definition lower_char :: "char \<Rightarrow> char" where
  "lower_char c =
     (if 65 \<le> (of_char c :: nat) \<and> (of_char c :: nat) \<le> 90
      then (case c of Char b0 b1 b2 b3 b4 b5 b6 b7 \<Rightarrow> Char b0 b1 b2 b3 b4 True b6 b7)
      else c)"

definition ToLower :: "string \<Rightarrow> string" where
  "ToLower s = map lower_char s"

text \<open>\<^verbatim>\<open>strconv.ParseUint(s, 10, 64)\<close>: the empty string, a byte that is not a decimal
  digit and a value above \<open>2^64 - 1\<close> are errors (\<open>None\<close>); base 10 is given
  explicitly, so no sign, prefix or underscore is accepted.\<close>

definition is_digit :: "char \<Rightarrow> bool" where
  "is_digit c = (let n = (of_char c :: nat) in 48 \<le> n \<and> n \<le> 57)"

definition digits_val :: "string \<Rightarrow> nat" where
  "digits_val s = foldl (\<lambda>n c. 10 * n + (of_char c - 48)) 0 s"

definition ParseUint :: "string \<Rightarrow> uint64 option" where
  "ParseUint s =
     (if s \<noteq> [] \<and> list_all is_digit s \<and> digits_val s < 2 ^ 64
      then Some (of_nat (digits_val s)) else None)"

subsection \<open>\<^verbatim>\<open>bytesValue\<close>\<close>

text \<open>The table \<^verbatim>\<open>bytesUnits\<close>, in the order of the source.\<close>

definition bytesUnits :: "(string \<times> uint64) list" where
  "bytesUnits =
     [(''g'', 1 * 1024 * 1024 * 1024),
      (''m'', 1 * 1024 * 1024),
      (''k'', 1 * 1024),
      (''gb'', 1 * 1024 * 1024 * 1024),
      (''mb'', 1 * 1024 * 1024),
      (''kb'', 1 * 1024),
      (''b'', 1),
      ('''', 1)]"

text \<open>The loop of \<^verbatim>\<open>bytesValue.Set\<close> over the table: \<open>x\<close> is the lowered input, \<open>s\<close>
  the input as given (it is what the error message names). Falling out of the loop is the
  \<^verbatim>\<open>panic("unreachable")\<close> of the source. The product \<^verbatim>\<open>v * u.value\<close> is a
  \<^verbatim>\<open>uint64\<close> product: it wraps.\<close>

fun Set_loop :: "string \<Rightarrow> string \<Rightarrow> (string \<times> uint64) list \<Rightarrow> error + uint64" where
  "Set_loop x s [] = Inl (Panic ''unreachable'')"
| "Set_loop x s (u # us) =
     (if \<not> HasSuffix x (fst u) then Set_loop x s us
      else (case ParseUint (TrimSuffix x (fst u)) of
              None \<Rightarrow> Inl (ErrParse s)
            | Some v \<Rightarrow> Inr (v * snd u)))"

definition bytesValue_Set :: "string \<Rightarrow> error + uint64" where
  "bytesValue_Set s = Set_loop (ToLower s) s bytesUnits"

subsection \<open>The junk filter \<^verbatim>\<open>isIgnoreMeta\<close>\<close>

text \<open>\<^verbatim>\<open>strings.Cut(s, sep)\<close> for a separator of one byte (\<^verbatim>\<open>string(os.PathSeparator)\<close>):
  the text before the first separator, the text after it, and whether it was found.\<close>

definition Cut :: "string \<Rightarrow> char \<Rightarrow> string \<times> string \<times> bool" where
  "Cut s sep =
     (if sep \<in> set s
      then (takeWhile (\<lambda>c. c \<noteq> sep) s, tl (dropWhile (\<lambda>c. c \<noteq> sep) s), True)
      else (s, [], False))"

text \<open>The loop of \<^verbatim>\<open>isIgnoreMeta\<close>; \<open>sep\<close> is \<^verbatim>\<open>os.PathSeparator\<close>.\<close>

function isIgnoreMeta :: "char \<Rightarrow> string \<Rightarrow> bool" where
  "isIgnoreMeta sep rest =
     (if rest = [] then False
      else (case Cut rest sep of
              (n, after, found) \<Rightarrow>
                if \<not> found then n = ''.DS_Store'' \<or> n = ''Thumbs.db'' \<or> n = ''__MACOSX''
                else if n = ''__MACOSX'' then True
                else isIgnoreMeta sep after))"
  by pat_completeness auto
termination
proof (relation "measure (\<lambda>(sep, rest). length rest)")
  show "wf (measure (\<lambda>(sep, rest). length rest))" by simp
next
  fix sep :: char and rest n after :: string and y :: "string \<times> bool" and found :: bool
  assume "rest \<noteq> []" and c: "(n, y) = Cut rest sep" and y: "(after, found) = y" and "\<not> \<not> found"
  then have mem: "sep \<in> set rest" and after: "after = tl (dropWhile (\<lambda>c. c \<noteq> sep) rest)"
    by (auto simp: Cut_def split: if_splits)
  have "dropWhile (\<lambda>c. c \<noteq> sep) rest \<noteq> []"
    using mem by (auto simp: dropWhile_eq_Nil_conv)
  then have "length (tl (dropWhile (\<lambda>c. c \<noteq> sep) rest)) < length (dropWhile (\<lambda>c. c \<noteq> sep) rest)"
    by (cases "dropWhile (\<lambda>c. c \<noteq> sep) rest") simp_all
  also have "\<dots> \<le> length rest" by (rule length_dropWhile_le)
  finally show "((sep, after), (sep, rest)) \<in> measure (\<lambda>(sep, rest). length rest)"
    using after by simp
qed

declare isIgnoreMeta.simps [simp del]

text \<open>The components of a path, as \<^verbatim>\<open>strings.Split(name, sep)\<close> gives them; used only to
  state what the filter accepts.\<close>

fun split_on :: "char \<Rightarrow> string \<Rightarrow> string list" where
  "split_on sep [] = [[]]"
| "split_on sep (c # cs) =
     (if c = sep then [] # split_on sep cs
      else (c # hd (split_on sep cs)) # tl (split_on sep cs))"

subsection \<open>The archive and the configuration\<close>

text \<open>What the \<^verbatim>\<open>Extractor\<close> interface gives for entry \<open>i\<close>:
  \<^verbatim>\<open>FileName(i)\<close>, \<^verbatim>\<open>FileSize(i)\<close> and \<^verbatim>\<open>IsDir(i)\<close>. An archive is the list of its
  entries, \<^verbatim>\<open>Files()\<close> its length.\<close>

record entry =
  e_name :: string
  e_size :: uint64
  e_isDir :: bool

text \<open>The flags and the values \<^verbatim>\<open>run\<close> computes before the pipeline starts.
  \<open>pathSep\<close> is \<^verbatim>\<open>os.PathSeparator\<close> and \<open>joinPath\<close> is \<^verbatim>\<open>filepath.Join\<close> on two
  elements: both belong to the platform and are parameters here.\<close>

record config =
  withMeta :: bool
  skipTop :: bool
  diskLimit :: uint64
  n_flag :: int
  archiveName :: string
  workDir :: string
  pathSep :: char
  joinPath :: "string \<Rightarrow> string \<Rightarrow> string"

subsection \<open>The first pass over the archive\<close>

record scan_state =
  largestFile :: string
  largestSize :: uint64
  filesCount :: nat
  topDirOnly :: bool

definition scan_init :: scan_state where
  "scan_init = \<lparr>largestFile = [], largestSize = 0, filesCount = 0, topDirOnly = True\<rparr>"

text \<open>One iteration of the loop at lines 222 to 243 of \<^verbatim>\<open>main.go\<close>.\<close>

definition scan_step :: "config \<Rightarrow> scan_state \<Rightarrow> entry \<Rightarrow> scan_state" where
  "scan_step cfg st e =
     (if e_isDir e then st
      else if \<not> withMeta cfg \<and> isIgnoreMeta (pathSep cfg) (e_name e) then st
      else
        let st1 =
              (if skipTop cfg \<and> topDirOnly st
               then (case Cut (e_name e) (pathSep cfg) of
                       (first, after, found) \<Rightarrow>
                         if first \<noteq> archiveName cfg then st\<lparr>topDirOnly := False\<rparr> else st)
               else st);
            st2 = st1\<lparr>filesCount := filesCount st1 + 1\<rparr>
        in if largestSize st2 < e_size e
           then st2\<lparr>largestFile := e_name e, largestSize := e_size e\<rparr>
           else st2)"

definition scan :: "config \<Rightarrow> entry list \<Rightarrow> scan_state" where
  "scan cfg es = foldl (scan_step cfg) scan_init es"

subsection \<open>\<^verbatim>\<open>bytesValue.String\<close>\<close>

text \<open>\<^verbatim>\<open>strconv.FormatUint(x, 10)\<close>: the decimal digits of a number.\<close>

fun dec_digits :: "nat \<Rightarrow> nat \<Rightarrow> string" where
  "dec_digits 0 n = []"
| "dec_digits (Suc fuel) n =
     (if n < 10 then [char_of (48 + n)]
      else dec_digits fuel (n div 10) @ [char_of (48 + n mod 10)])"

definition FormatUint :: "uint64 \<Rightarrow> string" where
  "FormatUint x = dec_digits 20 (unat x)"

fun String_loop :: "uint64 \<Rightarrow> (string \<times> uint64) list \<Rightarrow> string" where
  "String_loop b [] = ''0''"
| "String_loop b (u # us) =
     (if b \<ge> snd u then FormatUint (b div snd u) @ fst u else String_loop b us)"

definition bytesString :: "uint64 \<Rightarrow> string" where
  "bytesString x = String_loop x bytesUnits"

section \<open>Properties\<close>

subsection \<open>\<^verbatim>\<open>bytesValue.Set\<close>\<close>

lemma HasSuffix_Nil: "HasSuffix x []"
  by (simp add: HasSuffix_def)

lemma Set_loop_find:
  "find (\<lambda>u. HasSuffix x (fst u)) us = Some (suf, val) \<Longrightarrow>
   Set_loop x s us =
     (case ParseUint (TrimSuffix x suf) of None \<Rightarrow> Inl (ErrParse s) | Some v \<Rightarrow> Inr (v * val))"
  by (induction us) (auto split: if_splits option.splits)

lemma find_bytesUnits:
  "\<exists>suf val. find (\<lambda>u. HasSuffix x (fst u)) bytesUnits = Some (suf, val)"
  by (simp add: bytesUnits_def HasSuffix_Nil)

lemmas Set_eval =
  bytesValue_Set_def bytesUnits_def ToLower_def lower_char_def HasSuffix_def TrimSuffix_def
  ParseUint_def is_digit_def digits_val_def

text \<open>
  C10 (as stated, refuted): the value that \<^verbatim>\<open>Set\<close> stores is not always the parsed
  number times the unit. For \<^verbatim>\<open>17179869184g\<close> the number \<open>2^34\<close> parses, the unit is
  \<open>2^30\<close>, and the \<^verbatim>\<open>uint64\<close> product wraps to \<open>0\<close>.
\<close>

theorem bytesValue_Set_scaled_counterexample:
  "bytesValue_Set ''17179869184g'' = Inr 0 \<and>
   ParseUint ''17179869184'' = Some 17179869184 \<and>
   unat (17179869184 :: uint64) * unat (1073741824 :: uint64) \<noteq> unat (0 :: uint64)"
  by (simp add: Set_eval)

text \<open>
  C10 (amended): \<^verbatim>\<open>bytesValue.Set\<close> is total and never panics. For every input string
  the lowered string ends with some suffix of the table; with the first such suffix in the
  table's order (g, m, k, gb, mb, kb, b, empty), \<^verbatim>\<open>Set\<close> either returns the parse error
  naming the input, or stores the parsed number times the unit, the product taken modulo
  \<open>2^64\<close>. Both results differ from the trailing panic.
\<close>

theorem bytesValue_Set_total:
  "\<exists>suf val.
     find (\<lambda>u. HasSuffix (ToLower s) (fst u)) bytesUnits = Some (suf, val) \<and>
     (case ParseUint (TrimSuffix (ToLower s) suf) of
        None \<Rightarrow> bytesValue_Set s = Inl (ErrParse s)
      | Some v \<Rightarrow> (\<exists>r. bytesValue_Set s = Inr r \<and> unat r = (unat v * unat val) mod 2 ^ 64))"
proof -
  obtain suf val where f: "find (\<lambda>u. HasSuffix (ToLower s) (fst u)) bytesUnits = Some (suf, val)"
    using find_bytesUnits by blast
  have "bytesValue_Set s =
     (case ParseUint (TrimSuffix (ToLower s) suf) of
        None \<Rightarrow> Inl (ErrParse s) | Some v \<Rightarrow> Inr (v * val))"
    unfolding bytesValue_Set_def by (rule Set_loop_find [OF f])
  then show ?thesis using f
    by (auto split: option.splits simp: unat_word_ariths)
qed

theorem bytesValue_Set_total_witness:
  "bytesValue_Set ''10GB'' = Inr 10737418240 \<and> bytesValue_Set ''12x'' = Inl (ErrParse ''12x'')"
  using bytesValue_Set_total [of "''10GB''"] bytesValue_Set_total [of "''12x''"]
  by (simp add: Set_eval)

end
